theory Spec2Isabelle
  imports Complex_Main "HOL-Library.Multiset"
begin

section \<open>JavaScript numbers\<close>

text \<open>
  Every numeric value of the program is a JavaScript \<open>number\<close>. The model keeps the
  three special values apart (\<open>NaN\<close>, \<open>Infinity\<close>, \<open>-Infinity\<close>) and takes a finite
  value as an exact real. The operators below are the exact ones: they follow the
  ECMAScript tables for the special values and do not round; the rounding to binary64,
  with its overflow and underflow, is a separate section further down, used where a
  property depends on it. The sign of zero is not modelled. The only divisor of the program that can be zero is \<open>bestPrice\<close>, which is then
  the literal \<open>0\<close> (positive zero), so \<open>jdiv\<close> divides by positive zero.
\<close>

datatype jsnum = NaN | Fin real | PInf | NInf

fun jneg :: "jsnum \<Rightarrow> jsnum" where
  "jneg NaN = NaN"
| "jneg (Fin a) = Fin (- a)"
| "jneg PInf = NInf"
| "jneg NInf = PInf"

fun jadd :: "jsnum \<Rightarrow> jsnum \<Rightarrow> jsnum" where
  "jadd NaN _ = NaN"
| "jadd _ NaN = NaN"
| "jadd (Fin a) (Fin b) = Fin (a + b)"
| "jadd (Fin a) PInf = PInf"
| "jadd (Fin a) NInf = NInf"
| "jadd PInf NInf = NaN"
| "jadd PInf _ = PInf"
| "jadd NInf PInf = NaN"
| "jadd NInf _ = NInf"

definition jsub :: "jsnum \<Rightarrow> jsnum \<Rightarrow> jsnum" where
  "jsub a b = jadd a (jneg b)"

fun jmul :: "jsnum \<Rightarrow> jsnum \<Rightarrow> jsnum" where
  "jmul NaN _ = NaN"
| "jmul _ NaN = NaN"
| "jmul (Fin a) (Fin b) = Fin (a * b)"
| "jmul (Fin a) PInf = (if a = 0 then NaN else if 0 < a then PInf else NInf)"
| "jmul (Fin a) NInf = (if a = 0 then NaN else if 0 < a then NInf else PInf)"
| "jmul PInf (Fin b) = (if b = 0 then NaN else if 0 < b then PInf else NInf)"
| "jmul NInf (Fin b) = (if b = 0 then NaN else if 0 < b then NInf else PInf)"
| "jmul PInf PInf = PInf"
| "jmul PInf NInf = NInf"
| "jmul NInf PInf = NInf"
| "jmul NInf NInf = PInf"

fun jdiv :: "jsnum \<Rightarrow> jsnum \<Rightarrow> jsnum" where
  "jdiv NaN _ = NaN"
| "jdiv _ NaN = NaN"
| "jdiv (Fin a) (Fin b) =
     (if b = 0 then (if a = 0 then NaN else if 0 < a then PInf else NInf)
      else Fin (a / b))"
| "jdiv (Fin a) PInf = Fin 0"
| "jdiv (Fin a) NInf = Fin 0"
| "jdiv PInf (Fin b) = (if 0 \<le> b then PInf else NInf)"
| "jdiv NInf (Fin b) = (if 0 \<le> b then NInf else PInf)"
| "jdiv PInf _ = NaN"
| "jdiv NInf _ = NaN"

text \<open>\<open>Math.abs\<close> and \<open>Math.min\<close>: \<open>NaN\<close> as soon as an argument is \<open>NaN\<close>.\<close>

fun jabs :: "jsnum \<Rightarrow> jsnum" where
  "jabs NaN = NaN"
| "jabs (Fin a) = Fin \<bar>a\<bar>"
| "jabs PInf = PInf"
| "jabs NInf = PInf"

fun jmin :: "jsnum \<Rightarrow> jsnum \<Rightarrow> jsnum" where
  "jmin NaN _ = NaN"
| "jmin _ NaN = NaN"
| "jmin NInf _ = NInf"
| "jmin _ NInf = NInf"
| "jmin PInf b = b"
| "jmin a PInf = a"
| "jmin (Fin a) (Fin b) = Fin (min a b)"

text \<open>The comparisons \<open><\<close> and \<open><=\<close>: false as soon as an operand is \<open>NaN\<close>.\<close>

fun jlt :: "jsnum \<Rightarrow> jsnum \<Rightarrow> bool" where
  "jlt NaN _ = False"
| "jlt _ NaN = False"
| "jlt (Fin a) (Fin b) = (a < b)"
| "jlt _ NInf = False"
| "jlt NInf _ = True"
| "jlt PInf _ = False"
| "jlt _ PInf = True"

fun jle :: "jsnum \<Rightarrow> jsnum \<Rightarrow> bool" where
  "jle NaN _ = False"
| "jle _ NaN = False"
| "jle (Fin a) (Fin b) = (a \<le> b)"
| "jle NInf _ = True"
| "jle _ PInf = True"
| "jle _ NInf = False"
| "jle PInf _ = False"

text \<open>\<open>a > b\<close> is \<open>b < a\<close> and \<open>a >= b\<close> is \<open>b <= a\<close>.\<close>

abbreviation jgt :: "jsnum \<Rightarrow> jsnum \<Rightarrow> bool" where
  "jgt a b \<equiv> jlt b a"

abbreviation jge :: "jsnum \<Rightarrow> jsnum \<Rightarrow> bool" where
  "jge a b \<equiv> jle b a"

text \<open>Truthiness of a number, and \<open>a || b\<close> on numbers: zero and \<open>NaN\<close> are falsy.\<close>

fun truthy :: "jsnum \<Rightarrow> bool" where
  "truthy NaN = False"
| "truthy (Fin a) = (a \<noteq> 0)"
| "truthy PInf = True"
| "truthy NInf = True"

definition jor :: "jsnum \<Rightarrow> jsnum \<Rightarrow> jsnum" where
  "jor a b = (if truthy a then a else b)"

subsection \<open>The built-in \<open>parseFloat\<close>\<close>

text \<open>
  \<open>parseFloat\<close> skips leading white space and reads the longest prefix that is a decimal
  literal: an optional sign, then \<open>Infinity\<close> or digits with an optional fraction and an
  optional exponent. Without such a prefix the result is \<open>NaN\<close>; what follows the prefix
  is ignored. The function here returns the exact value of the literal, which the
  built-in then rounds to binary64 (\<open>roundNum\<close> below); a string is a list of bytes, and
  the white space skipped is the white space of ASCII.
\<close>

definition isDigit :: "char \<Rightarrow> bool" where
  "isDigit c = (c \<in> set ''0123456789'')"

definition isWhite :: "char \<Rightarrow> bool" where
  "isWhite c = (c \<in> set [CHR '' '', CHR 0x09, CHR 0x0A, CHR 0x0B, CHR 0x0C, CHR 0x0D])"

definition digitsVal :: "string \<Rightarrow> nat" where
  "digitsVal ds = foldl (\<lambda>n c. 10 * n + (of_char c - 48)) 0 ds"

definition exponentPart :: "string \<Rightarrow> int" where
  "exponentPart s =
     (case s of
        [] \<Rightarrow> 0
      | c # r \<Rightarrow>
          if c = CHR ''e'' \<or> c = CHR ''E'' then
            (case r of
               [] \<Rightarrow> 0
             | d # r' \<Rightarrow>
                 if d = CHR ''-'' then - int (digitsVal (takeWhile isDigit r'))
                 else if d = CHR ''+'' then int (digitsVal (takeWhile isDigit r'))
                 else int (digitsVal (takeWhile isDigit r)))
          else 0)"

definition scale10 :: "real \<Rightarrow> int \<Rightarrow> real" where
  "scale10 m e = (if 0 \<le> e then m * 10 ^ nat e else m / 10 ^ nat (- e))"

definition unsignedLiteral :: "string \<Rightarrow> jsnum" where
  "unsignedLiteral s =
     (if take 8 s = ''Infinity'' then PInf
      else
        let ip = takeWhile isDigit s;
            r1 = dropWhile isDigit s;
            hasDot = (case r1 of [] \<Rightarrow> False | c # _ \<Rightarrow> c = CHR ''.'');
            fp = (if hasDot then takeWhile isDigit (tl r1) else []);
            r2 = (if hasDot then dropWhile isDigit (tl r1) else r1)
        in if ip = [] \<and> fp = [] then NaN
           else Fin (scale10 (real (digitsVal ip) + real (digitsVal fp) / 10 ^ length fp)
                             (exponentPart r2)))"

definition parseFloat :: "string \<Rightarrow> jsnum" where
  "parseFloat str =
     (case dropWhile isWhite str of
        [] \<Rightarrow> NaN
      | c # r \<Rightarrow>
          if c = CHR ''-'' then jneg (unsignedLiteral r)
          else if c = CHR ''+'' then unsignedLiteral r
          else unsignedLiteral (c # r))"

section \<open>Data model (\<open>types.tsx\<close>)\<close>

text \<open>
  \<open>OrderLevel\<close> is \<open>{ price, size, total }\<close>; the field \<open>size\<close> is written \<open>size_l\<close> here,
  the name \<open>size\<close> being taken. \<open>timestamp\<close> is a number or a string.

  A \<open>token\<close> is the value that a parsed message holds where a price, a size or a
  timestamp is expected. The messages are untyped (\<open>WebSocketMessage\<close> ends in \<open>any\<close>), so
  beside a string and a number there are \<open>TNull\<close>, for \<open>null\<close> and for a missing element
  (\<open>undefined\<close>), and \<open>TOther s\<close>, for any other value (a boolean, an array, an object),
  given by the string \<open>s\<close> that it converts to.
\<close>

datatype token = TStr string | TNum jsnum | TNull | TOther string

record OrderLevel =
  price :: jsnum
  size_l :: jsnum
  total :: jsnum

record OrderbookData =
  bids :: "OrderLevel list"
  asks :: "OrderLevel list"
  timestamp :: token

datatype ExchangeKey = okx | bybit | deribit
datatype OrderType = market | limit
datatype Side = buy | sell
datatype Timing = immediate | delay5s | delay10s | delay30s

text \<open>\<open>OrderForm\<close>: \<open>price\<close> and \<open>quantity\<close> are the strings of the form (\<open>price_s\<close> is
  the field \<open>price\<close>).\<close>

record OrderForm =
  venue :: ExchangeKey
  symbol :: string
  orderType :: OrderType
  side :: Side
  price_s :: string
  quantity :: string
  timing :: Timing

record OrderMetrics =
  fillPercentage :: jsnum
  averageFillPrice :: jsnum
  slippage :: jsnum
  marketImpact :: jsnum
  estimatedCost :: jsnum

text \<open>\<open>DepthChartData\<close> is \<open>{ price, bidTotal, askTotal }\<close> (\<open>price_d\<close> is its \<open>price\<close>).\<close>

record DepthChartData =
  price_d :: jsnum
  bidTotal :: jsnum
  askTotal :: jsnum

section \<open>Book builder (\<open>processOrderbookData\<close>, \<open>calculateTotals\<close>)\<close>

text \<open>
  A raw level is an element of the \<open>bids\<close> or \<open>asks\<close> array of a venue message, which the
  callbacks of the builder take apart as \<open>[price, size]\<close>. \<open>Level p s\<close> is an array whose
  first two elements are \<open>p\<close> and \<open>s\<close> (\<open>TNull\<close> for an element that is not there);
  \<open>NotIterable\<close> is a value that cannot be taken apart (\<open>null\<close>, a number, a boolean, an
  object), on which the callback throws a \<open>TypeError\<close>.
\<close>

datatype raw_level = Level token token | NotIterable

text \<open>
  \<open>parseFloat(x)\<close> converts \<open>x\<close> to a string first: \<open>null\<close> and \<open>undefined\<close> become the
  strings \<open>null\<close> and \<open>undefined\<close>, which parse to \<open>NaN\<close>; printing a number and parsing it
  back gives the number again.
\<close>

fun parseFloatTok :: "token \<Rightarrow> jsnum" where
  "parseFloatTok (TStr s) = parseFloat s"
| "parseFloatTok (TNum n) = n"
| "parseFloatTok TNull = NaN"
| "parseFloatTok (TOther s) = parseFloat s"

text \<open>
  \<open>parseFloat(x.toString())\<close>, which the callbacks for Deribit use: \<open>x.toString()\<close> throws a
  \<open>TypeError\<close> on \<open>null\<close> and on \<open>undefined\<close> (the result \<open>None\<close>), and is the conversion to
  a string otherwise.
\<close>

fun parseFloatToString :: "token \<Rightarrow> jsnum option" where
  "parseFloatToString TNull = None"
| "parseFloatToString t = Some (parseFloatTok t)"

text \<open>The callbacks of \<open>map\<close>; \<open>None\<close> is a thrown \<open>TypeError\<close>. OKX and Bybit share
  \<open>toLevel\<close>; the price is converted before the size.\<close>

fun toLevel :: "raw_level \<Rightarrow> OrderLevel option" where
  "toLevel NotIterable = None"
| "toLevel (Level p s) =
     Some \<lparr>price = parseFloatTok p, size_l = parseFloatTok s, total = Fin 0\<rparr>"

fun toLevelDeribit :: "raw_level \<Rightarrow> OrderLevel option" where
  "toLevelDeribit NotIterable = None"
| "toLevelDeribit (Level p s) =
     (case parseFloatToString p of
        None \<Rightarrow> None
      | Some pr \<Rightarrow>
          (case parseFloatToString s of
             None \<Rightarrow> None
           | Some sz \<Rightarrow> Some \<lparr>price = pr, size_l = sz, total = Fin 0\<rparr>))"

text \<open>\<open>Array.prototype.map\<close> with a callback that may throw: the first exception ends the
  call.\<close>

fun mapLevels :: "(raw_level \<Rightarrow> OrderLevel option) \<Rightarrow> raw_level list \<Rightarrow> OrderLevel list option" where
  "mapLevels f [] = Some []"
| "mapLevels f (raw # rest) =
     (case f raw of
        None \<Rightarrow> None
      | Some level \<Rightarrow>
          (case mapLevels f rest of
             None \<Rightarrow> None
           | Some levels \<Rightarrow> Some (level # levels)))"

text \<open>\<open>calculateTotals\<close>: \<open>map\<close> over a side with the running sum \<open>bidTotal\<close> (\<open>askTotal\<close>)
  kept in a variable outside the callback; \<open>runningTotals\<close> threads that variable.\<close>

fun runningTotals :: "jsnum \<Rightarrow> OrderLevel list \<Rightarrow> OrderLevel list" where
  "runningTotals acc [] = []"
| "runningTotals acc (level # rest) =
     (let acc' = jadd acc (size_l level)
      in level\<lparr>total := acc'\<rparr> # runningTotals acc' rest)"

definition calculateTotals :: "OrderbookData \<Rightarrow> OrderbookData" where
  "calculateTotals orderbook =
     orderbook\<lparr>bids := runningTotals (Fin 0) (bids orderbook),
               asks := runningTotals (Fin 0) (asks orderbook)\<rparr>"

text \<open>The three builders; \<open>None\<close> is the \<open>TypeError\<close> of a callback, which leaves the
  builder. The bids are converted before the asks.\<close>

definition processOKXData :: "raw_level list \<Rightarrow> raw_level list \<Rightarrow> token \<Rightarrow> OrderbookData option" where
  "processOKXData rawBids rawAsks ts =
     (case mapLevels toLevel rawBids of
        None \<Rightarrow> None
      | Some bs \<Rightarrow>
          (case mapLevels toLevel rawAsks of
             None \<Rightarrow> None
           | Some as \<Rightarrow> Some (calculateTotals \<lparr>bids = bs, asks = as, timestamp = ts\<rparr>)))"

definition processBybitData :: "raw_level list \<Rightarrow> raw_level list \<Rightarrow> token \<Rightarrow> OrderbookData option" where
  "processBybitData rawBids rawAsks u =
     (case mapLevels toLevel rawBids of
        None \<Rightarrow> None
      | Some bs \<Rightarrow>
          (case mapLevels toLevel rawAsks of
             None \<Rightarrow> None
           | Some as \<Rightarrow> Some (calculateTotals \<lparr>bids = bs, asks = as, timestamp = u\<rparr>)))"

definition processDeribitData :: "raw_level list \<Rightarrow> raw_level list \<Rightarrow> token \<Rightarrow> OrderbookData option" where
  "processDeribitData rawBids rawAsks ts =
     (case mapLevels toLevelDeribit rawBids of
        None \<Rightarrow> None
      | Some bs \<Rightarrow>
          (case mapLevels toLevelDeribit rawAsks of
             None \<Rightarrow> None
           | Some as \<Rightarrow> Some (calculateTotals \<lparr>bids = bs, asks = as, timestamp = ts\<rparr>)))"

text \<open>
  The venue messages. A field that the guard of \<open>processOrderbookData\<close> tests is \<open>None\<close>
  when it is absent or falsy, and also when it is some value other than an array: the
  guard lets such a value pass, \<open>map\<close> is then not a function, and the call ends in the
  \<open>catch\<close> clause, with the same result \<open>null\<close>. \<open>OtherMessage\<close> is any message of another
  shape, such as the acknowledgement of a subscription.
\<close>

record OKXEntry =
  okx_bids :: "raw_level list option"
  okx_asks :: "raw_level list option"
  okx_ts :: token

record BybitData =
  bybit_b :: "raw_level list option"
  bybit_a :: "raw_level list option"
  bybit_u :: token

record DeribitData =
  deribit_bids :: "raw_level list option"
  deribit_asks :: "raw_level list option"
  deribit_timestamp :: token

datatype WebSocketMessage =
    OKXOrderbookData "OKXEntry list option"
  | BybitOrderbookData "BybitData option"
  | DeribitOrderbookData "DeribitData option"
  | OtherMessage

text \<open>
  \<open>processOrderbookData\<close>: the \<open>switch\<close> on the venue inside \<open>try { ... } catch { ... }\<close>,
  then \<open>return null\<close>. An exception of a builder is caught (and logged), so the \<open>None\<close> of
  a builder is the result \<open>null\<close>.
\<close>

fun processOrderbookData :: "ExchangeKey \<Rightarrow> WebSocketMessage \<Rightarrow> OrderbookData option" where
  "processOrderbookData okx (OKXOrderbookData (Some (e # _))) =
     (case (okx_bids e, okx_asks e) of
        (Some bs, Some as) \<Rightarrow> processOKXData bs as (okx_ts e)
      | _ \<Rightarrow> None)"
| "processOrderbookData bybit (BybitOrderbookData (Some d)) =
     (case (bybit_b d, bybit_a d) of
        (Some bs, Some as) \<Rightarrow> processBybitData bs as (bybit_u d)
      | _ \<Rightarrow> None)"
| "processOrderbookData deribit (DeribitOrderbookData (Some d)) =
     (case (deribit_bids d, deribit_asks d) of
        (Some bs, Some as) \<Rightarrow> processDeribitData bs as (deribit_timestamp d)
      | _ \<Rightarrow> None)"
| "processOrderbookData _ _ = None"

section \<open>Execution simulator (\<open>calculateOrderMetrics\<close>)\<close>

text \<open>The variables that the loop of the market branch updates.\<close>

record walk_vars =
  remainingQuantity :: jsnum
  totalCost :: jsnum
  weightedPriceSum :: jsnum
  filledQuantity :: jsnum

definition fillLevel :: "OrderLevel \<Rightarrow> walk_vars \<Rightarrow> walk_vars" where
  "fillLevel level v =
     (let fillQty = jmin (remainingQuantity v) (size_l level)
      in \<lparr>remainingQuantity = jsub (remainingQuantity v) fillQty,
          totalCost = jadd (totalCost v) (jmul fillQty (price level)),
          weightedPriceSum = jadd (weightedPriceSum v) (jmul fillQty (price level)),
          filledQuantity = jadd (filledQuantity v) fillQty\<rparr>)"

text \<open>\<open>for (const level of levels) { if (remainingQuantity <= 0) break; ... }\<close>\<close>

fun walkLevels :: "OrderLevel list \<Rightarrow> walk_vars \<Rightarrow> walk_vars" where
  "walkLevels [] v = v"
| "walkLevels (level # rest) v =
     (if jle (remainingQuantity v) (Fin 0) then v else walkLevels rest (fillLevel level v))"

text \<open>\<open>Array.prototype.findIndex\<close>: the index of the first element that satisfies the
  predicate, \<open>-1\<close> without one.\<close>

fun findIndexFrom :: "int \<Rightarrow> ('a \<Rightarrow> bool) \<Rightarrow> 'a list \<Rightarrow> int" where
  "findIndexFrom i P [] = - 1"
| "findIndexFrom i P (x # xs) = (if P x then i else findIndexFrom (i + 1) P xs)"

definition findIndex :: "('a \<Rightarrow> bool) \<Rightarrow> 'a list \<Rightarrow> int" where
  "findIndex P xs = findIndexFrom 0 P xs"

text \<open>\<open>levels[0]?.price || d\<close> and \<open>levels[0]?.total || d\<close>: the default also replaces a
  zero and a \<open>NaN\<close>.\<close>

definition firstOr :: "(OrderLevel \<Rightarrow> jsnum) \<Rightarrow> OrderLevel list \<Rightarrow> jsnum \<Rightarrow> jsnum" where
  "firstOr field levels d = (case levels of [] \<Rightarrow> d | level # _ \<Rightarrow> jor (field level) d)"

text \<open>The object that the function returns, from its variables at that point.\<close>

definition metricsOf :: "jsnum \<Rightarrow> jsnum \<Rightarrow> jsnum \<Rightarrow> jsnum \<Rightarrow> jsnum \<Rightarrow> jsnum \<Rightarrow> jsnum \<Rightarrow> OrderMetrics" where
  "metricsOf fillPct avgPrice slip impact cost pr qty =
     \<lparr>fillPercentage = jmin fillPct (Fin 100),
      averageFillPrice = avgPrice,
      slippage = slip,
      marketImpact = impact,
      estimatedCost = jor cost (jmul pr qty)\<rparr>"

definition crosses :: "Side \<Rightarrow> jsnum \<Rightarrow> OrderLevel \<Rightarrow> bool" where
  "crosses sd pr level = (if sd = buy then jle (price level) pr else jge (price level) pr)"

text \<open>The loop of the market branch, from the initial values of its variables.\<close>

definition marketWalk :: "OrderLevel list \<Rightarrow> jsnum \<Rightarrow> walk_vars" where
  "marketWalk levels qty =
     walkLevels levels
       \<lparr>remainingQuantity = qty, totalCost = Fin 0,
        weightedPriceSum = Fin 0, filledQuantity = Fin 0\<rparr>"

definition calculateOrderMetrics :: "OrderbookData option \<Rightarrow> OrderForm \<Rightarrow> OrderMetrics option" where
  "calculateOrderMetrics orderbook order =
     (case orderbook of
        None \<Rightarrow> None
      | Some ob \<Rightarrow>
          if price_s order = [] \<or> quantity order = [] then None
          else
            let pr = parseFloat (price_s order);
                qty = parseFloat (quantity order);
                levels = (if side order = buy then asks ob else bids ob)
            in if orderType order = market then
                 let w = marketWalk levels qty
                 in if jgt (filledQuantity w) (Fin 0) then
                      let avgPrice = jdiv (weightedPriceSum w) (filledQuantity w);
                          fillPct = jmul (jdiv (filledQuantity w) qty) (Fin 100);
                          bestPrice = firstOr price levels (Fin 0);
                          slip = jmul (jabs (jdiv (jsub avgPrice bestPrice) bestPrice)) (Fin 100);
                          impact = jmul (jdiv (filledQuantity w) (firstOr total levels (Fin 1)))
                                        (Fin 100)
                      in Some (metricsOf fillPct avgPrice slip impact (totalCost w) pr qty)
                    else Some (metricsOf (Fin 0) (Fin 0) (Fin 0) (Fin 0) (totalCost w) pr qty)
               else if findIndex (crosses (side order) pr) levels \<noteq> - 1 then
                 Some (metricsOf (Fin 100) pr (Fin 0)
                         (jmul (jdiv qty (firstOr total levels (Fin 1))) (Fin 100))
                         (Fin 0) pr qty)
               else Some (metricsOf (Fin 0) (Fin 0) (Fin 0) (Fin 0) (Fin 0) pr qty))"

section \<open>Depth projector (\<open>generateDepthChartData\<close>)\<close>

text \<open>
  \<open>Array.prototype.sort\<close> with a comparison function is stable: \<open>a\<close> stays before \<open>b\<close>
  unless \<open>compare(a, b) > 0\<close>, and a result \<open>NaN\<close> counts as zero. \<open>sortBy\<close> is the stable
  insertion sort; every stable sort gives the same list when the comparison is
  consistent, which \<open>a.price - b.price\<close> is as long as no price is \<open>NaN\<close>.
\<close>

fun insertBy :: "('a \<Rightarrow> 'a \<Rightarrow> jsnum) \<Rightarrow> 'a \<Rightarrow> 'a list \<Rightarrow> 'a list" where
  "insertBy cmp x [] = [x]"
| "insertBy cmp x (y # ys) =
     (if jgt (cmp x y) (Fin 0) then y # insertBy cmp x ys else x # y # ys)"

definition sortBy :: "('a \<Rightarrow> 'a \<Rightarrow> jsnum) \<Rightarrow> 'a list \<Rightarrow> 'a list" where
  "sortBy cmp xs = foldr (insertBy cmp) xs []"

definition bidPoint :: "OrderLevel \<Rightarrow> DepthChartData" where
  "bidPoint bid = \<lparr>price_d = price bid, bidTotal = total bid, askTotal = Fin 0\<rparr>"

definition askPoint :: "OrderLevel \<Rightarrow> DepthChartData" where
  "askPoint ask = \<lparr>price_d = price ask, bidTotal = Fin 0, askTotal = total ask\<rparr>"

definition generateDepthChartData :: "OrderbookData option \<Rightarrow> DepthChartData list" where
  "generateDepthChartData orderbook =
     (case orderbook of
        None \<Rightarrow> []
      | Some ob \<Rightarrow>
          let bidsData = map bidPoint (bids ob);
              asksData = map askPoint (asks ob)
          in sortBy (\<lambda>a b. jsub (price_d a) (price_d b)) (rev bidsData @ asksData))"

section \<open>Rounding to binary64\<close>

text \<open>
  The operators of the first section compute with exact reals. An arithmetic operation
  of the program is the exact operation followed by the rounding of its result to the
  nearest binary64 number, ties to the even significand. Where a property depends on
  that rounding, the simulator is taken with the rounding \<open>rnd\<close> as a parameter:
  \<open>Fin\<close> is the rounding that changes nothing, \<open>binary64\<close> the one of the program.

  \<open>nearest64 x\<close>, for \<open>x >= 0\<close>: \<open>x\<close> is written as \<open>m * 2 ^ e\<close> with \<open>2 ^ 52 <= m < 2 ^ 53\<close>,
  or with \<open>m < 2 ^ 52\<close> at the least exponent \<open>- 1074\<close> (the subnormal numbers), and \<open>m\<close> is
  rounded to an integer. A result from \<open>2 ^ 1024\<close> on is \<open>Infinity\<close>.
\<close>

type_synonym rounding = "real \<Rightarrow> jsnum"

function scaleUp :: "real \<Rightarrow> int \<Rightarrow> real \<times> int" where
  "scaleUp x e = (if x < 2 ^ 52 \<and> - 1074 < e then scaleUp (2 * x) (e - 1) else (x, e))"
  by pat_completeness auto
termination
  by (relation "measure (\<lambda>(x, e). nat (e + 1074))") auto

function scaleDown :: "real \<Rightarrow> int \<Rightarrow> real \<times> int" where
  "scaleDown x e = (if 2 ^ 53 \<le> x \<and> e < 972 then scaleDown (x / 2) (e + 1) else (x, e))"
  by pat_completeness auto
termination
  by (relation "measure (\<lambda>(x, e). nat (972 - e))") auto

declare scaleUp.simps [simp del] scaleDown.simps [simp del]

definition roundEven :: "real \<Rightarrow> int" where
  "roundEven x =
     (let f = \<lfloor>x\<rfloor>; d = x - of_int f
      in if d < 1 / 2 then f else if 1 / 2 < d then f + 1 else if even f then f else f + 1)"

definition scale2 :: "real \<Rightarrow> int \<Rightarrow> real" where
  "scale2 m e = (if 0 \<le> e then m * 2 ^ nat e else m / 2 ^ nat (- e))"

definition nearest64 :: "real \<Rightarrow> real" where
  "nearest64 x =
     (if x = 0 then 0
      else case (if x < 2 ^ 52 then scaleUp x 0 else scaleDown x 0) of
             (m, e) \<Rightarrow> scale2 (of_int (roundEven m)) e)"

definition binary64 :: rounding where
  "binary64 x =
     (let r = nearest64 \<bar>x\<bar>
      in if 2 ^ 1024 \<le> r then (if 0 < x then PInf else NInf)
         else Fin (if 0 \<le> x then r else - r))"

text \<open>The rounded operators: the special values are those of the exact operator, a
  finite result is rounded.\<close>

fun roundNum :: "rounding \<Rightarrow> jsnum \<Rightarrow> jsnum" where
  "roundNum rnd (Fin x) = rnd x"
| "roundNum rnd NaN = NaN"
| "roundNum rnd PInf = PInf"
| "roundNum rnd NInf = NInf"

definition radd :: "rounding \<Rightarrow> jsnum \<Rightarrow> jsnum \<Rightarrow> jsnum" where
  "radd rnd a b = roundNum rnd (jadd a b)"

definition rsub :: "rounding \<Rightarrow> jsnum \<Rightarrow> jsnum \<Rightarrow> jsnum" where
  "rsub rnd a b = roundNum rnd (jsub a b)"

definition rmul :: "rounding \<Rightarrow> jsnum \<Rightarrow> jsnum \<Rightarrow> jsnum" where
  "rmul rnd a b = roundNum rnd (jmul a b)"

definition rdiv :: "rounding \<Rightarrow> jsnum \<Rightarrow> jsnum \<Rightarrow> jsnum" where
  "rdiv rnd a b = roundNum rnd (jdiv a b)"

text \<open>
  \<open>calculateOrderMetrics\<close> once more, every arithmetic operation and the two calls of
  \<open>parseFloat\<close> rounded by \<open>rnd\<close>; comparisons, \<open>Math.min\<close> and \<open>Math.abs\<close> do not round.
\<close>

definition fillLevelR :: "rounding \<Rightarrow> OrderLevel \<Rightarrow> walk_vars \<Rightarrow> walk_vars" where
  "fillLevelR rnd level v =
     (let fillQty = jmin (remainingQuantity v) (size_l level)
      in \<lparr>remainingQuantity = rsub rnd (remainingQuantity v) fillQty,
          totalCost = radd rnd (totalCost v) (rmul rnd fillQty (price level)),
          weightedPriceSum = radd rnd (weightedPriceSum v) (rmul rnd fillQty (price level)),
          filledQuantity = radd rnd (filledQuantity v) fillQty\<rparr>)"

fun walkLevelsR :: "rounding \<Rightarrow> OrderLevel list \<Rightarrow> walk_vars \<Rightarrow> walk_vars" where
  "walkLevelsR rnd [] v = v"
| "walkLevelsR rnd (level # rest) v =
     (if jle (remainingQuantity v) (Fin 0) then v
      else walkLevelsR rnd rest (fillLevelR rnd level v))"

definition marketWalkR :: "rounding \<Rightarrow> OrderLevel list \<Rightarrow> jsnum \<Rightarrow> walk_vars" where
  "marketWalkR rnd levels qty =
     walkLevelsR rnd levels
       \<lparr>remainingQuantity = qty, totalCost = Fin 0,
        weightedPriceSum = Fin 0, filledQuantity = Fin 0\<rparr>"

definition metricsOfR ::
  "rounding \<Rightarrow> jsnum \<Rightarrow> jsnum \<Rightarrow> jsnum \<Rightarrow> jsnum \<Rightarrow> jsnum \<Rightarrow> jsnum \<Rightarrow> jsnum \<Rightarrow> OrderMetrics" where
  "metricsOfR rnd fillPct avgPrice slip impact cost pr qty =
     \<lparr>fillPercentage = jmin fillPct (Fin 100),
      averageFillPrice = avgPrice,
      slippage = slip,
      marketImpact = impact,
      estimatedCost = jor cost (rmul rnd pr qty)\<rparr>"

definition calculateOrderMetricsR ::
  "rounding \<Rightarrow> OrderbookData option \<Rightarrow> OrderForm \<Rightarrow> OrderMetrics option" where
  "calculateOrderMetricsR rnd orderbook order =
     (case orderbook of
        None \<Rightarrow> None
      | Some ob \<Rightarrow>
          if price_s order = [] \<or> quantity order = [] then None
          else
            let pr = roundNum rnd (parseFloat (price_s order));
                qty = roundNum rnd (parseFloat (quantity order));
                levels = (if side order = buy then asks ob else bids ob)
            in if orderType order = market then
                 let w = marketWalkR rnd levels qty
                 in if jgt (filledQuantity w) (Fin 0) then
                      let avgPrice = rdiv rnd (weightedPriceSum w) (filledQuantity w);
                          fillPct = rmul rnd (rdiv rnd (filledQuantity w) qty) (Fin 100);
                          bestPrice = firstOr price levels (Fin 0);
                          slip = rmul rnd (jabs (rdiv rnd (rsub rnd avgPrice bestPrice) bestPrice))
                                      (Fin 100);
                          impact = rmul rnd (rdiv rnd (filledQuantity w)
                                                      (firstOr total levels (Fin 1)))
                                        (Fin 100)
                      in Some (metricsOfR rnd fillPct avgPrice slip impact (totalCost w) pr qty)
                    else Some (metricsOfR rnd (Fin 0) (Fin 0) (Fin 0) (Fin 0) (totalCost w) pr qty)
               else if findIndex (crosses (side order) pr) levels \<noteq> - 1 then
                 Some (metricsOfR rnd (Fin 100) pr (Fin 0)
                         (rmul rnd (rdiv rnd qty (firstOr total levels (Fin 1))) (Fin 100))
                         (Fin 0) pr qty)
               else Some (metricsOfR rnd (Fin 0) (Fin 0) (Fin 0) (Fin 0) (Fin 0) pr qty))"

section \<open>Auxiliary notions for the statements\<close>

text \<open>The side of the book that an order walks: asks for a buy, bids for a sell.\<close>

definition relevantSide :: "OrderbookData \<Rightarrow> OrderForm \<Rightarrow> OrderLevel list" where
  "relevantSide ob order = (if side order = buy then asks ob else bids ob)"



text \<open>Concrete levels, books and orders for the examples.\<close>

definition mkLevel :: "real \<Rightarrow> real \<Rightarrow> real \<Rightarrow> OrderLevel" where
  "mkLevel p s t = \<lparr>price = Fin p, size_l = Fin s, total = Fin t\<rparr>"

definition mkBook :: "OrderLevel list \<Rightarrow> OrderLevel list \<Rightarrow> OrderbookData" where
  "mkBook bs as = \<lparr>bids = bs, asks = as, timestamp = TStr ''0''\<rparr>"

definition mkOrder :: "OrderType \<Rightarrow> Side \<Rightarrow> string \<Rightarrow> string \<Rightarrow> OrderForm" where
  "mkOrder ty sd p q =
     \<lparr>venue = okx, symbol = ''BTC-USDT'', orderType = ty, side = sd,
      price_s = p, quantity = q, timing = immediate\<rparr>"


definition pricesNotNaN :: "OrderbookData \<Rightarrow> bool" where
  "pricesNotNaN ob = (\<forall>level \<in> set (bids ob) \<union> set (asks ob). price level \<noteq> NaN)"


text \<open>The two tokens of a raw level.\<close>

fun priceToken :: "raw_level \<Rightarrow> token" where
  "priceToken (Level p s) = p"
| "priceToken NotIterable = TNull"

fun sizeToken :: "raw_level \<Rightarrow> token" where
  "sizeToken (Level p s) = s"
| "sizeToken NotIterable = TNull"

text \<open>\<open>keepsEveryLevel raw levels\<close>: one level per raw level, in the order of the message,
  its price and size the results of \<open>parseFloat\<close> on the two tokens.\<close>

definition keepsEveryLevel :: "raw_level list \<Rightarrow> OrderLevel list \<Rightarrow> bool" where
  "keepsEveryLevel raw levels \<longleftrightarrow>
     map price levels = map (\<lambda>level. parseFloatTok (priceToken level)) raw \<and>
     map size_l levels = map (\<lambda>level. parseFloatTok (sizeToken level)) raw"

text \<open>
  \<open>levelThrows ex level\<close>: the raw level on which the callback of the venue \<open>ex\<close> throws. No
  venue can take apart a value that is not iterable; Deribit, which calls \<open>toString\<close> on
  the tokens, also throws on a token that is \<open>null\<close> or missing.
\<close>

definition levelThrows :: "ExchangeKey \<Rightarrow> raw_level \<Rightarrow> bool" where
  "levelThrows ex level =
     (case level of
        NotIterable \<Rightarrow> True
      | Level p s \<Rightarrow> ex = deribit \<and> (p = TNull \<or> s = TNull))"

definition ascendingByPrice :: "DepthChartData list \<Rightarrow> bool" where
  "ascendingByPrice points = sorted_wrt (\<lambda>a b. jle (price_d a) (price_d b)) points"

text \<open>The four metrics that do not depend on the fallback of \<open>estimatedCost\<close>.\<close>

definition fillMetrics :: "OrderMetrics \<Rightarrow> jsnum \<times> jsnum \<times> jsnum \<times> jsnum" where
  "fillMetrics m = (fillPercentage m, averageFillPrice m, slippage m, marketImpact m)"

section \<open>Facts about the numbers\<close>

lemmas parse_defs = parseFloat_def unsignedLiteral_def isWhite_def isDigit_def digitsVal_def
  exponentPart_def scale10_def

lemmas example_defs = mkLevel_def mkBook_def mkOrder_def

lemmas binary64_defs = binary64_def nearest64_def scale2_def roundEven_def scaleUp.simps
  scaleDown.simps Let_def

lemmas simR_defs = calculateOrderMetricsR_def marketWalkR_def metricsOfR_def fillLevelR_def
  radd_def rsub_def rmul_def rdiv_def firstOr_def jor_def jsub_def findIndex_def crosses_def
  relevantSide_def Let_def

lemmas sim_defs = calculateOrderMetrics_def marketWalk_def metricsOf_def firstOr_def jor_def
  jsub_def findIndex_def crosses_def fillLevel_def relevantSide_def Let_def

lemma jadd_NaN_right [simp]: "jadd a NaN = NaN"
  by (cases a) simp_all

lemma jmul_NaN_right [simp]: "jmul a NaN = NaN"
  by (cases a) simp_all

lemma jmin_NaN_right [simp]: "jmin a NaN = NaN"
  by (cases a) simp_all

lemma jlt_NaN_right [simp]: "\<not> jlt a NaN"
  by (cases a) simp_all

lemma jle_NaN_right [simp]: "\<not> jle a NaN"
  by (cases a) simp_all

lemma jsub_gt_zero: "a \<noteq> NaN \<Longrightarrow> b \<noteq> NaN \<Longrightarrow> jgt (jsub a b) (Fin 0) \<longleftrightarrow> jlt b a"
  by (cases a; cases b) (simp_all add: jsub_def)

lemma jlt_imp_jle: "jlt a b \<Longrightarrow> jle a b"
  by (cases a; cases b) simp_all

lemma not_jlt_imp_jle: "a \<noteq> NaN \<Longrightarrow> b \<noteq> NaN \<Longrightarrow> \<not> jlt b a \<Longrightarrow> jle a b"
  by (cases a; cases b) simp_all

lemma jle_trans: "jle a b \<Longrightarrow> jle b c \<Longrightarrow> jle a c"
  by (cases a; cases b; cases c) simp_all


lemma parseFloat_Nil: "parseFloat [] = NaN"
  by (simp add: parseFloat_def)

section \<open>The execution simulator\<close>

subsection \<open>The level walk\<close>

lemma walkLevels_done: "jle (remainingQuantity v) (Fin 0) \<Longrightarrow> walkLevels levels v = v"
  by (cases levels) simp_all

text \<open>A quantity \<open>NaN\<close> never stops the loop and turns the sums into \<open>NaN\<close>.\<close>

lemma walkLevels_NaN:
  "remainingQuantity v = NaN \<Longrightarrow> levels \<noteq> [] \<Longrightarrow>
   totalCost (walkLevels levels v) = NaN \<and> filledQuantity (walkLevels levels v) = NaN"
proof (induction levels arbitrary: v)
  case Nil
  then show ?case by simp
next
  case (Cons level rest)
  let ?v = "fillLevel level v"
  have rem: "remainingQuantity ?v = NaN" and tc: "totalCost ?v = NaN"
    and fq: "filledQuantity ?v = NaN"
    using Cons.prems(1) by (simp_all add: fillLevel_def jsub_def)
  show ?case
  proof (cases rest)
    case Nil
    with tc fq Cons.prems(1) show ?thesis by simp
  next
    case (Cons l ls)
    then have "rest \<noteq> []" by simp
    from Cons.IH [OF rem this] Cons.prems(1) show ?thesis by simp
  qed
qed

lemma marketWalk_NaN_cost: "\<not> truthy (totalCost (marketWalk levels NaN))"
proof (cases levels)
  case Nil
  then show ?thesis by (simp add: marketWalk_def)
next
  case (Cons l ls)
  then have "totalCost (marketWalk levels NaN) = NaN"
    using walkLevels_NaN [of _ levels] by (simp add: marketWalk_def)
  then show ?thesis by simp
qed

lemma estimatedCost_metricsOf:
  "estimatedCost (metricsOf f a s i c p q) = (if truthy c then c else jmul p q)"
  by (simp add: metricsOf_def jor_def)

text \<open>What \<open>estimatedCost\<close> is, for every request that passes the guard.\<close>

lemma estimatedCost_of_result:
  assumes "price_s order \<noteq> []" and "quantity order \<noteq> []"
  shows "\<exists>m. calculateOrderMetrics (Some ob) order = Some m \<and>
     estimatedCost m =
       (let fallback = jmul (parseFloat (price_s order)) (parseFloat (quantity order));
            cost = totalCost (marketWalk (relevantSide ob order) (parseFloat (quantity order)))
        in if orderType order = market then (if truthy cost then cost else fallback)
           else fallback)"
  using assms
  by (simp add: calculateOrderMetrics_def relevantSide_def Let_def estimatedCost_metricsOf)

lemma findIndexFrom_iff: "0 \<le> i \<Longrightarrow> findIndexFrom i P xs \<noteq> - 1 \<longleftrightarrow> (\<exists>x \<in> set xs. P x)"
  by (induction xs arbitrary: i) auto

lemma findIndex_iff: "findIndex P xs \<noteq> - 1 \<longleftrightarrow> (\<exists>x \<in> set xs. P x)"
  by (simp add: findIndex_def findIndexFrom_iff)

subsection \<open>The guard on the request\<close>

text \<open>
  Claim C10. A request whose price string is empty gets no result, whatever the book and
  the order type, so also a market order on a non-empty book. Yet a market order does
  not use the price but for the fallback of \<open>estimatedCost\<close>: two market orders that
  differ only in their (non-empty) price strings get the same fill percentage, average
  fill price, slippage and market impact.
\<close>

theorem market_order_requires_price_string:
  "(price_s order = [] \<longrightarrow> calculateOrderMetrics orderbook order = None) \<and>
   (orderType order = market \<and> p \<noteq> [] \<and> p' \<noteq> [] \<longrightarrow>
      map_option fillMetrics (calculateOrderMetrics orderbook (order\<lparr>price_s := p\<rparr>)) =
      map_option fillMetrics (calculateOrderMetrics orderbook (order\<lparr>price_s := p'\<rparr>)))"
proof (cases orderbook)
  case None
  then show ?thesis by (simp add: calculateOrderMetrics_def)
next
  case (Some ob)
  then show ?thesis
    by (simp add: calculateOrderMetrics_def Let_def metricsOf_def fillMetrics_def)
qed

text \<open>The instance: a market buy of 5 with an empty price against asks \<open>[(100, 10)]\<close> gets
  no result, and the prices \<open>1\<close> and \<open>250\<close> give the same four metrics.\<close>

theorem market_order_requires_price_string_witness:
  "price_s (mkOrder market buy [] ''5'') = [] \<and>
   calculateOrderMetrics (Some (mkBook [] [mkLevel 100 10 10])) (mkOrder market buy [] ''5'') = None \<and>
   orderType (mkOrder market buy [] ''5'') = market \<and> ''1'' \<noteq> [] \<and> ''250'' \<noteq> [] \<and>
   map_option fillMetrics
     (calculateOrderMetrics (Some (mkBook [] [mkLevel 100 10 10]))
        ((mkOrder market buy [] ''5'')\<lparr>price_s := ''1''\<rparr>)) =
   map_option fillMetrics
     (calculateOrderMetrics (Some (mkBook [] [mkLevel 100 10 10]))
        ((mkOrder market buy [] ''5'')\<lparr>price_s := ''250''\<rparr>))"
proof -
  have h: "price_s (mkOrder market buy [] ''5'') = []"
    and k: "orderType (mkOrder market buy [] ''5'') = market"
    by (simp_all add: mkOrder_def)
  from market_order_requires_price_string
         [of "mkOrder market buy [] ''5''" "Some (mkBook [] [mkLevel 100 10 10])" "''1''" "''250''"]
    h k
  show ?thesis by simp
qed

text \<open>
  Claim C2, as the code has it. The simulator gives no result exactly when the price
  string or the quantity string is empty (the book being there). A non-empty string that
  \<open>parseFloat\<close> reads as \<open>NaN\<close> is not rejected: a metrics value comes back, and with a
  quantity \<open>NaN\<close>, or a limit price \<open>NaN\<close>, its \<open>estimatedCost\<close> is \<open>NaN\<close>.
\<close>

theorem rejects_only_empty_strings:
  "(calculateOrderMetrics (Some ob) order = None \<longleftrightarrow>
      price_s order = [] \<or> quantity order = []) \<and>
   (price_s order \<noteq> [] \<and> quantity order \<noteq> [] \<and>
    (parseFloat (quantity order) = NaN \<or>
     orderType order = limit \<and> parseFloat (price_s order) = NaN) \<longrightarrow>
      (\<exists>m. calculateOrderMetrics (Some ob) order = Some m \<and> estimatedCost m = NaN))"
proof (intro conjI impI)
  show "calculateOrderMetrics (Some ob) order = None \<longleftrightarrow>
      price_s order = [] \<or> quantity order = []"
    by (simp add: calculateOrderMetrics_def Let_def)
next
  assume h: "price_s order \<noteq> [] \<and> quantity order \<noteq> [] \<and>
    (parseFloat (quantity order) = NaN \<or>
     orderType order = limit \<and> parseFloat (price_s order) = NaN)"
  then have "price_s order \<noteq> []" and "quantity order \<noteq> []" by simp_all
  from estimatedCost_of_result [OF this, of ob]
  obtain m where m: "calculateOrderMetrics (Some ob) order = Some m"
    and e: "estimatedCost m =
       (let fallback = jmul (parseFloat (price_s order)) (parseFloat (quantity order));
            cost = totalCost (marketWalk (relevantSide ob order) (parseFloat (quantity order)))
        in if orderType order = market then (if truthy cost then cost else fallback)
           else fallback)"
    by blast
  from h have "parseFloat (quantity order) = NaN \<or>
     orderType order = limit \<and> parseFloat (price_s order) = NaN"
    by simp
  then have "estimatedCost m = NaN"
  proof
    assume "parseFloat (quantity order) = NaN"
    with e show ?thesis by (simp add: Let_def marketWalk_NaN_cost)
  next
    assume "orderType order = limit \<and> parseFloat (price_s order) = NaN"
    with e show ?thesis by (simp add: Let_def)
  qed
  with m show "\<exists>m. calculateOrderMetrics (Some ob) order = Some m \<and> estimatedCost m = NaN"
    by blast
qed

text \<open>The instance: a limit buy at the price \<open>abc\<close>.\<close>

theorem rejects_only_empty_strings_witness:
  "price_s (mkOrder limit buy ''abc'' ''2'') \<noteq> [] \<and>
   quantity (mkOrder limit buy ''abc'' ''2'') \<noteq> [] \<and>
   orderType (mkOrder limit buy ''abc'' ''2'') = limit \<and>
   parseFloat (price_s (mkOrder limit buy ''abc'' ''2'')) = NaN \<and>
   calculateOrderMetrics (Some (mkBook [] [mkLevel 100 10 10])) (mkOrder limit buy ''abc'' ''2'') \<noteq> None \<and>
   (\<exists>m. calculateOrderMetrics (Some (mkBook [] [mkLevel 100 10 10]))
           (mkOrder limit buy ''abc'' ''2'') = Some m \<and> estimatedCost m = NaN)"
proof -
  have h: "price_s (mkOrder limit buy ''abc'' ''2'') \<noteq> []"
    "quantity (mkOrder limit buy ''abc'' ''2'') \<noteq> []"
    "orderType (mkOrder limit buy ''abc'' ''2'') = limit"
    by (simp_all add: mkOrder_def)
  have n: "parseFloat (price_s (mkOrder limit buy ''abc'' ''2'')) = NaN"
    by (simp add: mkOrder_def parse_defs)
  from rejects_only_empty_strings
         [of "mkBook [] [mkLevel 100 10 10]" "mkOrder limit buy ''abc'' ''2''"] h n
  show ?thesis by simp
qed

text \<open>
  The claim as the specification states it fails: the quantity \<open>abc\<close> parses to \<open>NaN\<close>,
  and the market buy is answered with a metrics value whose \<open>estimatedCost\<close> is \<open>NaN\<close>.
\<close>

theorem non_numeric_quantity_not_rejected:
  "parseFloat ''abc'' = NaN \<and>
   calculateOrderMetrics (Some (mkBook [] [mkLevel 100 10 10]))
     (mkOrder market buy ''100'' ''abc'') =
   Some \<lparr>fillPercentage = Fin 0, averageFillPrice = Fin 0, slippage = Fin 0,
         marketImpact = Fin 0, estimatedCost = NaN\<rparr>"
  by (simp add: sim_defs parse_defs example_defs)

subsection \<open>An empty side\<close>

text \<open>
  Claim C1, as the code has it. When the side that the order walks has no level, the
  simulator gives no result only for an empty price or quantity string. Otherwise it
  returns a metrics value: fill percentage, average fill price, slippage and market
  impact are zero and \<open>estimatedCost\<close> is price times quantity. No division is
  evaluated on that path.
\<close>

theorem empty_side_gives_zero_metrics:
  assumes "relevantSide ob order = []"
  shows "calculateOrderMetrics (Some ob) order =
    (if price_s order = [] \<or> quantity order = [] then None
     else Some \<lparr>fillPercentage = Fin 0, averageFillPrice = Fin 0, slippage = Fin 0,
                marketImpact = Fin 0,
                estimatedCost = jmul (parseFloat (price_s order)) (parseFloat (quantity order))\<rparr>)"
proof -
  from assms have "(if side order = buy then asks ob else bids ob) = []"
    by (simp add: relevantSide_def)
  then show ?thesis
    by (simp add: calculateOrderMetrics_def marketWalk_def metricsOf_def jor_def findIndex_def
        Let_def)
qed

text \<open>The instance: a limit sell of 3 at 98 against a book without bids.\<close>

theorem empty_side_gives_zero_metrics_witness:
  "relevantSide (mkBook [] [mkLevel 100 10 10]) (mkOrder limit sell ''98'' ''3'') = [] \<and>
   calculateOrderMetrics (Some (mkBook [] [mkLevel 100 10 10])) (mkOrder limit sell ''98'' ''3'') =
   Some \<lparr>fillPercentage = Fin 0, averageFillPrice = Fin 0, slippage = Fin 0,
         marketImpact = Fin 0, estimatedCost = Fin 294\<rparr>"
proof -
  have h: "relevantSide (mkBook [] [mkLevel 100 10 10]) (mkOrder limit sell ''98'' ''3'') = []"
    by (simp add: relevantSide_def example_defs)
  from empty_side_gives_zero_metrics [OF h] h
  show ?thesis by (simp add: mkOrder_def parse_defs)
qed

text \<open>
  The claim as the specification states it fails: a market buy against a book without
  asks is answered with a metrics value, not with no result.
\<close>

theorem empty_side_not_rejected:
  "asks (mkBook [mkLevel 99 5 5] []) = [] \<and>
   calculateOrderMetrics (Some (mkBook [mkLevel 99 5 5] [])) (mkOrder market buy ''100'' ''2'') =
   Some \<lparr>fillPercentage = Fin 0, averageFillPrice = Fin 0, slippage = Fin 0,
         marketImpact = Fin 0, estimatedCost = Fin 200\<rparr>"
  by (simp add: sim_defs parse_defs example_defs)

subsection \<open>The estimated cost\<close>

text \<open>
  Claim C3, as the code has it. \<open>estimatedCost\<close> is \<open>totalCost || price * quantity\<close> in
  both branches. For a market order it is the cost that the walk accumulated when that
  cost is neither zero nor \<open>NaN\<close>, and price times quantity otherwise; for a limit
  order, which accumulates no cost, it is price times quantity.
\<close>

theorem estimatedCost_fallback_in_both_branches:
  assumes "price_s order \<noteq> []" and "quantity order \<noteq> []"
  shows "\<exists>m. calculateOrderMetrics (Some ob) order = Some m \<and>
     estimatedCost m =
       (let fallback = jmul (parseFloat (price_s order)) (parseFloat (quantity order));
            cost = totalCost (marketWalk (relevantSide ob order) (parseFloat (quantity order)))
        in if orderType order = market then (if truthy cost then cost else fallback)
           else fallback)"
  using assms by (rule estimatedCost_of_result)

text \<open>The instance: a market buy of 4 against asks \<open>[(100, 10)]\<close> costs 400, whatever the
  price string says.\<close>

theorem estimatedCost_fallback_in_both_branches_witness:
  "price_s (mkOrder market buy ''7'' ''4'') \<noteq> [] \<and>
   quantity (mkOrder market buy ''7'' ''4'') \<noteq> [] \<and>
   (\<exists>m. calculateOrderMetrics (Some (mkBook [] [mkLevel 100 10 10]))
           (mkOrder market buy ''7'' ''4'') = Some m \<and> estimatedCost m = Fin 400)"
proof -
  have h: "price_s (mkOrder market buy ''7'' ''4'') \<noteq> []"
    "quantity (mkOrder market buy ''7'' ''4'') \<noteq> []"
    by (simp_all add: mkOrder_def)
  from estimatedCost_fallback_in_both_branches [OF h, of "mkBook [] [mkLevel 100 10 10]"] h
  show ?thesis
    by (simp add: marketWalk_def fillLevel_def relevantSide_def jsub_def Let_def
        example_defs parse_defs)
qed

text \<open>
  The claim as the specification states it fails: against the single ask of size zero
  the walk of a market buy accumulates the cost zero, and the result carries the
  fallback \<open>50 * 1\<close>.
\<close>

theorem market_zero_cost_uses_fallback:
  "totalCost (marketWalk [mkLevel 100 0 0] (parseFloat ''1'')) = Fin 0 \<and>
   calculateOrderMetrics (Some (mkBook [] [mkLevel 100 0 0])) (mkOrder market buy ''50'' ''1'') =
   Some \<lparr>fillPercentage = Fin 0, averageFillPrice = Fin 0, slippage = Fin 0,
         marketImpact = Fin 0, estimatedCost = Fin 50\<rparr>"
  by (simp add: sim_defs parse_defs example_defs)

subsection \<open>Market orders\<close>

text \<open>Without rounding the simulator with the parameter is the simulator of the exact
  operators.\<close>

lemma roundNum_Fin [simp]: "roundNum Fin v = v"
  by (cases v) simp_all

lemma walkLevelsR_exact: "walkLevelsR Fin levels v = walkLevels levels v"
  by (induction levels arbitrary: v)
     (simp_all add: fillLevelR_def fillLevel_def radd_def rsub_def rmul_def)

lemma calculateOrderMetricsR_exact:
  "calculateOrderMetricsR Fin orderbook order = calculateOrderMetrics orderbook order"
  by (cases orderbook)
     (simp_all add: calculateOrderMetricsR_def calculateOrderMetrics_def marketWalkR_def
        marketWalk_def walkLevelsR_exact metricsOfR_def metricsOf_def rmul_def rdiv_def rsub_def
        Let_def)

lemma walkLevelsR_done: "jle (remainingQuantity v) (Fin 0) \<Longrightarrow> walkLevelsR rnd levels v = v"
  by (cases levels) simp_all

text \<open>
  Claim C5, as the code has it. Let the walked side start with a level whose price \<open>p\<close> is
  finite and not zero, let a market order ask for a quantity \<open>q\<close> with \<open>0 < q\<close> and
  \<open>q <= size\<close> of that level, and let the simulator return a result for it. Then the order
  is filled at that level alone and the fill percentage is 100. The average fill price
  is the quotient \<open>(0 + q * p) / q\<close> as the program computes it, every operation rounded,
  and the slippage is \<open>|(average - p) / p| * 100\<close>, computed likewise: the slippage is 0
  whenever the average is \<open>p\<close>, and without rounding the average is \<open>p\<close>. The rounding \<open>rnd\<close>
  is any function that leaves 0, 1, 100 and the quantity \<open>q\<close> as they are.
\<close>

theorem market_fill_within_top_level:
  assumes r0: "rnd 0 = Fin 0" and r1: "rnd 1 = Fin 1" and r100: "rnd 100 = Fin 100"
    and mk: "orderType order = market"
    and lv: "relevantSide ob order = best # rest"
    and pr: "price best = Fin p" "p \<noteq> 0"
    and q: "roundNum rnd (parseFloat (quantity order)) = Fin q" "0 < q" "jle (Fin q) (size_l best)"
    and rq: "rnd q = Fin q"
    and res: "calculateOrderMetricsR rnd (Some ob) order = Some m"
  shows "fillPercentage m = Fin 100 \<and>
         averageFillPrice m =
           rdiv rnd (radd rnd (Fin 0) (rmul rnd (Fin q) (price best))) (Fin q) \<and>
         slippage m =
           rmul rnd (jabs (rdiv rnd (rsub rnd (averageFillPrice m) (price best)) (price best)))
                (Fin 100) \<and>
         (averageFillPrice m = price best \<longrightarrow> slippage m = Fin 0) \<and>
         ((\<forall>x. rnd x = Fin x) \<longrightarrow> averageFillPrice m = price best \<and> slippage m = Fin 0)"
proof -
  from res have strings: "price_s order \<noteq> []" "quantity order \<noteq> []"
    by (auto simp: calculateOrderMetricsR_def split: if_splits)
  have fq: "jmin (Fin q) (size_l best) = Fin q"
    using q(3) by (cases "size_l best") simp_all
  let ?sum = "radd rnd (Fin 0) (rmul rnd (Fin q) (Fin p))"
  have w: "marketWalkR rnd (best # rest) (Fin q) =
     \<lparr>remainingQuantity = Fin 0, totalCost = ?sum, weightedPriceSum = ?sum,
      filledQuantity = Fin q\<rparr>"
    using q(2) pr(1) fq r0 rq
    by (simp add: marketWalkR_def fillLevelR_def walkLevelsR_done rsub_def jsub_def radd_def
        Let_def)
  from lv have lv': "(if side order = buy then asks ob else bids ob) = best # rest"
    by (simp add: relevantSide_def)
  let ?avg = "rdiv rnd ?sum (Fin q)"
  let ?slip = "rmul rnd (jabs (rdiv rnd (rsub rnd ?avg (Fin p)) (Fin p))) (Fin 100)"
  have pct: "rmul rnd (rdiv rnd (Fin q) (Fin q)) (Fin 100) = Fin 100"
    using q(2) r1 r100 by (simp add: rdiv_def rmul_def)
  from res have m: "fillPercentage m = Fin 100" "averageFillPrice m = ?avg" "slippage m = ?slip"
    using mk strings q(1,2) pr
    by (auto simp: calculateOrderMetricsR_def lv' w metricsOfR_def firstOr_def jor_def pct
        Let_def)
  have zero: "?slip = Fin 0" if "?avg = Fin p"
    using that pr(2) r0 by (simp add: rsub_def jsub_def rdiv_def rmul_def)
  have exact: "?avg = Fin p" if "\<forall>x. rnd x = Fin x"
    using that q(2) by (simp add: radd_def rmul_def rdiv_def)
  from m zero exact pr(1) show ?thesis by auto
qed

text \<open>The instance, with the rounding of the program, which leaves 0, 1, 100 and 4 as they
  are: a market sell of 4 against bids \<open>[(100, 10), (99, 7)]\<close>. Here no operation rounds,
  and the average is the price.\<close>

theorem market_fill_within_top_level_witness:
  "binary64 0 = Fin 0 \<and> binary64 1 = Fin 1 \<and> binary64 100 = Fin 100 \<and>
   orderType (mkOrder market sell ''1'' ''4'') = market \<and>
   relevantSide (mkBook [mkLevel 100 10 10, mkLevel 99 7 17] []) (mkOrder market sell ''1'' ''4'') =
     mkLevel 100 10 10 # [mkLevel 99 7 17] \<and>
   price (mkLevel 100 10 10) = Fin 100 \<and> (100::real) \<noteq> 0 \<and>
   roundNum binary64 (parseFloat (quantity (mkOrder market sell ''1'' ''4''))) = Fin 4 \<and>
   (0::real) < 4 \<and> jle (Fin 4) (size_l (mkLevel 100 10 10)) \<and> binary64 4 = Fin 4 \<and>
   calculateOrderMetricsR binary64 (Some (mkBook [mkLevel 100 10 10, mkLevel 99 7 17] []))
     (mkOrder market sell ''1'' ''4'') =
     Some \<lparr>fillPercentage = Fin 100, averageFillPrice = Fin 100, slippage = Fin 0,
           marketImpact = Fin 40, estimatedCost = Fin 400\<rparr> \<and>
   averageFillPrice \<lparr>fillPercentage = Fin 100, averageFillPrice = Fin 100, slippage = Fin 0,
                     marketImpact = Fin 40, estimatedCost = Fin 400\<rparr> =
     rdiv binary64 (radd binary64 (Fin 0) (rmul binary64 (Fin 4) (price (mkLevel 100 10 10))))
          (Fin 4)"
proof -
  let ?order = "mkOrder market sell ''1'' ''4''"
  let ?ob = "mkBook [mkLevel 100 10 10, mkLevel 99 7 17] []"
  let ?m = "\<lparr>fillPercentage = Fin 100, averageFillPrice = Fin 100, slippage = Fin 0,
             marketImpact = Fin 40, estimatedCost = Fin 400\<rparr>"
  have r: "binary64 0 = Fin 0" "binary64 1 = Fin 1" "binary64 100 = Fin 100"
    and r4: "binary64 4 = Fin 4"
    by (simp_all add: binary64_defs)
  have h1: "orderType ?order = market"
    and h3: "relevantSide ?ob ?order = mkLevel 100 10 10 # [mkLevel 99 7 17]"
    and h4: "price (mkLevel 100 10 10) = Fin 100"
    and h5: "(100::real) \<noteq> 0"
    and h7: "(0::real) < 4"
    and h8: "jle (Fin 4) (size_l (mkLevel 100 10 10))"
    by (simp_all add: relevantSide_def example_defs)
  have h6: "roundNum binary64 (parseFloat (quantity ?order)) = Fin 4"
    by (simp add: mkOrder_def parse_defs binary64_defs)
  have res: "calculateOrderMetricsR binary64 (Some ?ob) ?order = Some ?m"
    by (simp add: simR_defs binary64_defs parse_defs example_defs)
  have avg: "averageFillPrice ?m =
     rdiv binary64 (radd binary64 (Fin 0) (rmul binary64 (Fin 4) (price (mkLevel 100 10 10))))
          (Fin 4)"
    using market_fill_within_top_level [OF r h1 h3 h4 h5 h6 h7 h8 r4 res] by blast
  from r r4 h1 h3 h4 h5 h6 h7 h8 res avg
  show ?thesis by blast
qed

text \<open>
  The claim as the specification states it fails twice, with the rounding of the program.
  The top price is \<open>3602879701896397 / 2 ^ 55\<close>, the binary64 number that \<open>parseFloat\<close> gives
  for \<open>0.1\<close>: the market buy of 3 is filled within the top level of size 10, its average
  fill price is \<open>7205759403792795 / 2 ^ 56\<close> (printed \<open>0.10000000000000002\<close>), not the top
  price, and its slippage is \<open>125 / 2 ^ 53\<close>, not 0. And at a top level of price zero the
  slippage of the market buy of 5 is \<open>0 / 0\<close>, that is \<open>NaN\<close>.
\<close>

theorem market_fill_rounded_or_zero_price:
  "roundNum binary64 (parseFloat ''0.1'') = Fin (3602879701896397 / 2 ^ 55) \<and>
   calculateOrderMetricsR binary64
     (Some (mkBook [] [mkLevel (3602879701896397 / 2 ^ 55) 10 10]))
     (mkOrder market buy ''1'' ''3'') =
   Some \<lparr>fillPercentage = Fin 100,
         averageFillPrice = Fin (7205759403792795 / 2 ^ 56),
         slippage = Fin (125 / 2 ^ 53),
         marketImpact = Fin 30,
         estimatedCost = Fin (1351079888211149 / 2 ^ 52)\<rparr> \<and>
   calculateOrderMetricsR binary64 (Some (mkBook [] [mkLevel 0 10 10]))
     (mkOrder market buy ''1'' ''5'') =
   Some \<lparr>fillPercentage = Fin 100, averageFillPrice = Fin 0, slippage = NaN,
         marketImpact = Fin 50, estimatedCost = Fin 5\<rparr>"
  by (simp add: simR_defs binary64_defs parse_defs example_defs)

text \<open>
  A market buy of the quantity 15 with a non-empty price string, against the asks
  \<open>[(100, 10), (101, 10)]\<close>, their totals computed by the builder: the walk fills 15 for
  the cost \<open>10 * 100 + 5 * 101 = 1505\<close>; the fill percentage is 100, the average fill price
  \<open>1505 / 15\<close>, about 100.333, and the slippage \<open>|1505 / 15 - 100| / 100 * 100\<close>, about
  0.333 (the exact operators).
\<close>

lemma market_buy_15_against_two_asks:
  assumes "orderType order = market" and "side order = buy"
    and "quantity order = ''15''" and "price_s order \<noteq> []"
  shows "marketWalk [mkLevel 100 10 10, mkLevel 101 10 20] (parseFloat ''15'') =
           \<lparr>remainingQuantity = Fin 0, totalCost = Fin (10 * 100 + 5 * 101),
            weightedPriceSum = Fin 1505, filledQuantity = Fin 15\<rparr> \<and>
         calculateOrderMetrics
           (Some (calculateTotals (mkBook bs [mkLevel 100 10 0, mkLevel 101 10 0]))) order =
           Some \<lparr>fillPercentage = Fin 100,
                 averageFillPrice = Fin (1505 / 15),
                 slippage = Fin (\<bar>1505 / 15 - 100\<bar> / 100 * 100),
                 marketImpact = Fin 150,
                 estimatedCost = Fin 1505\<rparr> \<and>
         \<bar>1505 / 15 - 100.333\<bar> < (0.001 :: real) \<and>
         \<bar>\<bar>1505 / 15 - 100\<bar> / 100 * 100 - 0.333\<bar> < (0.001 :: real)"
  using assms
  by (simp add: sim_defs parse_defs calculateTotals_def example_defs)

text \<open>
  Claim C8. The market buy of the quantity 15 against the asks \<open>[(100, 10), (101, 10)]\<close>
  as the form submits it, with the empty price string that the form keeps for a market
  order (it shows the price input for a limit order only): the guard on the price string
  stops it before the walk, and it gets no result, where the claim has the fill of 15 for
  the cost 1505. The same order with the price string \<open>1\<close> gets the metrics of the claim.
\<close>

theorem market_buy_15_without_price:
  "calculateOrderMetrics
     (Some (calculateTotals (mkBook [] [mkLevel 100 10 0, mkLevel 101 10 0])))
     (mkOrder market buy [] ''15'') = None \<and>
   calculateOrderMetrics
     (Some (calculateTotals (mkBook [] [mkLevel 100 10 0, mkLevel 101 10 0])))
     (mkOrder market buy ''1'' ''15'') =
   Some \<lparr>fillPercentage = Fin 100, averageFillPrice = Fin (1505 / 15),
         slippage = Fin (1 / 3), marketImpact = Fin 150, estimatedCost = Fin 1505\<rparr>"
  by (simp add: sim_defs parse_defs calculateTotals_def example_defs)

subsection \<open>Limit orders\<close>

text \<open>
  Claim C6, as the code has it. For a limit order on a non-empty side (price and
  quantity strings non-empty): if some level crosses (buy: a level with
  \<open>price <= limitPrice\<close>; sell: \<open>price >= limitPrice\<close>) then the fill percentage is 100,
  the average fill price is the limit price, the slippage is 0 and the market impact is
  \<open>quantity / d * 100\<close>, where \<open>d\<close> is the total of the first level, or 1 when that total
  is zero or \<open>NaN\<close>; if no level crosses, these four metrics are zero. In particular,
  against the asks \<open>[(100, 10), (101, 10)]\<close> a limit buy at 99, of any quantity, gets the
  four zeros and a limit buy at 101 gets the fill percentage 100, the average fill price
  101 and the slippage 0.
\<close>

theorem limit_order_metrics:
  assumes lm: "orderType order = limit"
    and ps: "price_s order \<noteq> []" and qs: "quantity order \<noteq> []"
    and lv: "relevantSide ob order = best # rest"
  shows "(\<exists>m. calculateOrderMetrics (Some ob) order = Some m \<and>
     (if \<exists>level \<in> set (best # rest). crosses (side order) (parseFloat (price_s order)) level
      then fillPercentage m = Fin 100 \<and>
           averageFillPrice m = parseFloat (price_s order) \<and>
           slippage m = Fin 0 \<and>
           marketImpact m =
             jmul (jdiv (parseFloat (quantity order))
                        (if truthy (total best) then total best else Fin 1)) (Fin 100)
      else fillPercentage m = Fin 0 \<and> averageFillPrice m = Fin 0 \<and>
           slippage m = Fin 0 \<and> marketImpact m = Fin 0)) \<and>
    (q \<noteq> [] \<longrightarrow>
       map_option fillMetrics
         (calculateOrderMetrics (Some (mkBook bs [mkLevel 100 10 10, mkLevel 101 10 20]))
            (mkOrder limit buy ''99'' q)) =
       Some (Fin 0, Fin 0, Fin 0, Fin 0)) \<and>
    (q \<noteq> [] \<longrightarrow>
       (\<exists>m. calculateOrderMetrics (Some (mkBook bs [mkLevel 100 10 10, mkLevel 101 10 20]))
              (mkOrder limit buy ''101'' q) = Some m \<and>
            fillPercentage m = Fin 100 \<and> averageFillPrice m = Fin 101 \<and>
            slippage m = Fin 0))"
proof (intro conjI impI)
  from lv have lv': "(if side order = buy then asks ob else bids ob) = best # rest"
    by (simp add: relevantSide_def)
  show "\<exists>m. calculateOrderMetrics (Some ob) order = Some m \<and>
     (if \<exists>level \<in> set (best # rest). crosses (side order) (parseFloat (price_s order)) level
      then fillPercentage m = Fin 100 \<and>
           averageFillPrice m = parseFloat (price_s order) \<and>
           slippage m = Fin 0 \<and>
           marketImpact m =
             jmul (jdiv (parseFloat (quantity order))
                        (if truthy (total best) then total best else Fin 1)) (Fin 100)
      else fillPercentage m = Fin 0 \<and> averageFillPrice m = Fin 0 \<and>
           slippage m = Fin 0 \<and> marketImpact m = Fin 0)"
    using lm ps qs
    by (simp add: calculateOrderMetrics_def lv' metricsOf_def firstOr_def jor_def
        findIndex_iff Let_def del: set_simps)
next
  assume "q \<noteq> []"
  then show "map_option fillMetrics
         (calculateOrderMetrics (Some (mkBook bs [mkLevel 100 10 10, mkLevel 101 10 20]))
            (mkOrder limit buy ''99'' q)) =
       Some (Fin 0, Fin 0, Fin 0, Fin 0)"
    by (simp add: sim_defs parse_defs example_defs fillMetrics_def)
next
  assume "q \<noteq> []"
  then show "\<exists>m. calculateOrderMetrics (Some (mkBook bs [mkLevel 100 10 10, mkLevel 101 10 20]))
              (mkOrder limit buy ''101'' q) = Some m \<and>
            fillPercentage m = Fin 100 \<and> averageFillPrice m = Fin 101 \<and>
            slippage m = Fin 0"
    by (simp add: sim_defs parse_defs example_defs)
qed

text \<open>The instance: a limit sell of 6 at 99 against bids \<open>[(100, 4), (98, 5)]\<close>; the first
  bid crosses, and the impact is \<open>6 / 4 * 100\<close>. The limit buys at 99 and at 101 are of
  the quantity 2.\<close>

theorem limit_order_metrics_witness:
  "''2'' \<noteq> [] \<and>
   map_option fillMetrics
     (calculateOrderMetrics (Some (mkBook [] [mkLevel 100 10 10, mkLevel 101 10 20]))
        (mkOrder limit buy ''99'' ''2'')) =
     Some (Fin 0, Fin 0, Fin 0, Fin 0) \<and>
   (\<exists>m. calculateOrderMetrics (Some (mkBook [] [mkLevel 100 10 10, mkLevel 101 10 20]))
          (mkOrder limit buy ''101'' ''2'') = Some m \<and>
        fillPercentage m = Fin 100 \<and> averageFillPrice m = Fin 101 \<and> slippage m = Fin 0) \<and>
   orderType (mkOrder limit sell ''99'' ''6'') = limit \<and>
   price_s (mkOrder limit sell ''99'' ''6'') \<noteq> [] \<and>
   quantity (mkOrder limit sell ''99'' ''6'') \<noteq> [] \<and>
   relevantSide (mkBook [mkLevel 100 4 4, mkLevel 98 5 9] []) (mkOrder limit sell ''99'' ''6'') =
     mkLevel 100 4 4 # [mkLevel 98 5 9] \<and>
   crosses sell (parseFloat ''99'') (mkLevel 100 4 4) \<and>
   (\<exists>m. calculateOrderMetrics (Some (mkBook [mkLevel 100 4 4, mkLevel 98 5 9] []))
           (mkOrder limit sell ''99'' ''6'') = Some m \<and>
        fillPercentage m = Fin 100 \<and> averageFillPrice m = Fin 99 \<and>
        slippage m = Fin 0 \<and> marketImpact m = Fin 150)"
proof -
  have h: "orderType (mkOrder limit sell ''99'' ''6'') = limit"
    "price_s (mkOrder limit sell ''99'' ''6'') \<noteq> []"
    "quantity (mkOrder limit sell ''99'' ''6'') \<noteq> []"
    "relevantSide (mkBook [mkLevel 100 4 4, mkLevel 98 5 9] []) (mkOrder limit sell ''99'' ''6'') =
       mkLevel 100 4 4 # [mkLevel 98 5 9]"
    by (simp_all add: relevantSide_def example_defs)
  have c: "crosses sell (parseFloat ''99'') (mkLevel 100 4 4)"
    by (simp add: crosses_def mkLevel_def parse_defs)
  have p: "parseFloat ''99'' = Fin 99" "parseFloat ''6'' = Fin 6"
    by (simp_all add: parse_defs)
  from limit_order_metrics [OF h, of "''2''" "[]"] h c p
  show ?thesis by (simp add: mkOrder_def mkLevel_def)
qed

text \<open>
  The claim as the specification states it fails when the total of the first level is
  zero: for the limit buy of 5 at 101 the quotient \<open>quantity / total * 100\<close> is
  \<open>Infinity\<close>, and the code, which divides by 1 instead, reports the impact 500.
\<close>

theorem limit_impact_zero_total_divides_by_one:
  "jmul (jdiv (parseFloat ''5'') (total (mkLevel 100 0 0))) (Fin 100) = PInf \<and>
   calculateOrderMetrics (Some (mkBook [] [mkLevel 100 0 0, mkLevel 101 10 10]))
     (mkOrder limit buy ''101'' ''5'') =
   Some \<lparr>fillPercentage = Fin 100, averageFillPrice = Fin 101, slippage = Fin 0,
         marketImpact = Fin 500, estimatedCost = Fin 505\<rparr>"
  by (simp add: sim_defs parse_defs example_defs)

section \<open>The book builder\<close>


lemma runningTotals_map_price: "map price (runningTotals acc levels) = map price levels"
  by (induction levels arbitrary: acc) (simp_all add: Let_def)

lemma runningTotals_map_size: "map size_l (runningTotals acc levels) = map size_l levels"
  by (induction levels arbitrary: acc) (simp_all add: Let_def)



lemma keepsEveryLevel_runningTotals:
  "keepsEveryLevel raw levels \<Longrightarrow> keepsEveryLevel raw (runningTotals acc levels)"
  by (simp add: keepsEveryLevel_def runningTotals_map_size runningTotals_map_price)

text \<open>The callbacks throw on the levels of \<open>levelThrows\<close> and on no other.\<close>

lemma toLevel_throws: "ex \<noteq> deribit \<Longrightarrow> toLevel raw = None \<longleftrightarrow> levelThrows ex raw"
  by (cases raw) (simp_all add: levelThrows_def)

lemma toLevelDeribit_throws: "toLevelDeribit raw = None \<longleftrightarrow> levelThrows deribit raw"
proof (cases raw)
  case (Level p s)
  then show ?thesis
    by (cases p; cases s) (simp_all add: levelThrows_def)
next
  case NotIterable
  then show ?thesis by (simp add: levelThrows_def)
qed

lemma toLevel_fields:
  "toLevel raw = Some level \<Longrightarrow>
   price level = parseFloatTok (priceToken raw) \<and> size_l level = parseFloatTok (sizeToken raw)"
  by (cases raw) auto

lemma toLevelDeribit_fields:
  "toLevelDeribit raw = Some level \<Longrightarrow>
   price level = parseFloatTok (priceToken raw) \<and> size_l level = parseFloatTok (sizeToken raw)"
proof (cases raw)
  case (Level p s)
  assume "toLevelDeribit raw = Some level"
  with Level show ?thesis
    by (cases p; cases s) auto
next
  case NotIterable
  assume "toLevelDeribit raw = Some level"
  with NotIterable show ?thesis by simp
qed

text \<open>\<open>map\<close> throws as soon as the callback throws on one element, and converts every
  element otherwise.\<close>

lemma mapLevels_None:
  "mapLevels f raw = None \<longleftrightarrow> (\<exists>level \<in> set raw. f level = None)"
  by (induction raw) (auto split: option.splits)

lemma mapLevels_Some:
  assumes "mapLevels f raw = Some levels"
    and "\<And>r level. f r = Some level \<Longrightarrow>
           price level = parseFloatTok (priceToken r) \<and> size_l level = parseFloatTok (sizeToken r)"
  shows "keepsEveryLevel raw levels"
  using assms(1)
proof (induction raw arbitrary: levels)
  case Nil
  then show ?case by (simp add: keepsEveryLevel_def)
next
  case (Cons r rest)
  from Cons.prems obtain level others where f: "f r = Some level"
    and m: "mapLevels f rest = Some others" and l: "levels = level # others"
    by (auto split: option.splits)
  from Cons.IH [OF m] have "keepsEveryLevel rest others" .
  with assms(2) [OF f] l show ?case by (simp add: keepsEveryLevel_def)
qed

text \<open>A builder, given by its callback \<open>f\<close>: it fails when \<open>f\<close> throws on a level of either
  side, and keeps every level otherwise.\<close>

lemma builder_result:
  assumes throws: "\<And>r. f r = None \<longleftrightarrow> levelThrows ex r"
    and fields: "\<And>r level. f r = Some level \<Longrightarrow>
           price level = parseFloatTok (priceToken r) \<and> size_l level = parseFloatTok (sizeToken r)"
    and build: "result =
      (case mapLevels f bs of
         None \<Rightarrow> None
       | Some bids' \<Rightarrow>
           (case mapLevels f as of
              None \<Rightarrow> None
            | Some asks' \<Rightarrow> Some (calculateTotals \<lparr>bids = bids', asks = asks', timestamp = ts\<rparr>)))"
  shows "if \<exists>level \<in> set (bs @ as). levelThrows ex level then result = None
         else \<exists>ob. result = Some ob \<and> keepsEveryLevel bs (bids ob) \<and> keepsEveryLevel as (asks ob)"
proof (cases "\<exists>level \<in> set (bs @ as). levelThrows ex level")
  case True
  then have "mapLevels f bs = None \<or> mapLevels f as = None"
    by (auto simp: mapLevels_None throws)
  then have "result = None"
    by (auto simp: build split: option.splits)
  with True show ?thesis by simp
next
  case False
  then have "mapLevels f bs \<noteq> None" and "mapLevels f as \<noteq> None"
    by (auto simp: mapLevels_None throws)
  then obtain bids' asks' where b: "mapLevels f bs = Some bids'" and a: "mapLevels f as = Some asks'"
    by auto
  have "keepsEveryLevel bs bids'" and "keepsEveryLevel as asks'"
    using mapLevels_Some [OF b fields] mapLevels_Some [OF a fields] by simp_all
  then have "keepsEveryLevel bs (runningTotals (Fin 0) bids')"
    and "keepsEveryLevel as (runningTotals (Fin 0) asks')"
    by (simp_all add: keepsEveryLevel_runningTotals)
  then have "\<exists>ob. result = Some ob \<and> keepsEveryLevel bs (bids ob) \<and> keepsEveryLevel as (asks ob)"
    by (simp add: build b a calculateTotals_def)
  with False show ?thesis by simp
qed

text \<open>
  Claim C4, as the code has it. The builder never drops a single level. When the message
  of a venue has its two lists, the builder either fails the whole update, or builds a
  book in which each side has one level per raw level, in the order of the message, with
  \<open>parseFloat\<close> of the price token as its price and \<open>parseFloat\<close> of the size token as
  its size. It fails exactly when a callback throws (the exception is caught and the
  result is \<open>null\<close>): on a level that cannot be taken apart and, for Deribit, on a token
  that is \<open>null\<close> or missing. A token that does not parse as a number (not numeric, empty)
  does not fail the update: it leaves \<open>NaN\<close> in its level of the book.
\<close>

theorem builder_fails_or_keeps_every_level:
  "(okx_bids e = Some bs \<and> okx_asks e = Some as \<longrightarrow>
      (if \<exists>level \<in> set (bs @ as). levelThrows okx level
       then processOrderbookData okx (OKXOrderbookData (Some (e # es))) = None
       else \<exists>ob. processOrderbookData okx (OKXOrderbookData (Some (e # es))) = Some ob \<and>
                 keepsEveryLevel bs (bids ob) \<and> keepsEveryLevel as (asks ob))) \<and>
   (bybit_b d = Some bs \<and> bybit_a d = Some as \<longrightarrow>
      (if \<exists>level \<in> set (bs @ as). levelThrows bybit level
       then processOrderbookData bybit (BybitOrderbookData (Some d)) = None
       else \<exists>ob. processOrderbookData bybit (BybitOrderbookData (Some d)) = Some ob \<and>
                 keepsEveryLevel bs (bids ob) \<and> keepsEveryLevel as (asks ob))) \<and>
   (deribit_bids r = Some bs \<and> deribit_asks r = Some as \<longrightarrow>
      (if \<exists>level \<in> set (bs @ as). levelThrows deribit level
       then processOrderbookData deribit (DeribitOrderbookData (Some r)) = None
       else \<exists>ob. processOrderbookData deribit (DeribitOrderbookData (Some r)) = Some ob \<and>
                 keepsEveryLevel bs (bids ob) \<and> keepsEveryLevel as (asks ob)))"
proof (intro conjI impI)
  assume h: "okx_bids e = Some bs \<and> okx_asks e = Some as"
  have "processOrderbookData okx (OKXOrderbookData (Some (e # es))) =
      (case mapLevels toLevel bs of
         None \<Rightarrow> None
       | Some bids' \<Rightarrow>
           (case mapLevels toLevel as of
              None \<Rightarrow> None
            | Some asks' \<Rightarrow>
                Some (calculateTotals \<lparr>bids = bids', asks = asks', timestamp = okx_ts e\<rparr>)))"
    using h by (simp add: processOKXData_def)
  then show "if \<exists>level \<in> set (bs @ as). levelThrows okx level
       then processOrderbookData okx (OKXOrderbookData (Some (e # es))) = None
       else \<exists>ob. processOrderbookData okx (OKXOrderbookData (Some (e # es))) = Some ob \<and>
                 keepsEveryLevel bs (bids ob) \<and> keepsEveryLevel as (asks ob)"
    by (rule builder_result [rotated 2]) (simp_all add: toLevel_throws toLevel_fields)
next
  assume h: "bybit_b d = Some bs \<and> bybit_a d = Some as"
  have "processOrderbookData bybit (BybitOrderbookData (Some d)) =
      (case mapLevels toLevel bs of
         None \<Rightarrow> None
       | Some bids' \<Rightarrow>
           (case mapLevels toLevel as of
              None \<Rightarrow> None
            | Some asks' \<Rightarrow>
                Some (calculateTotals \<lparr>bids = bids', asks = asks', timestamp = bybit_u d\<rparr>)))"
    using h by (simp add: processBybitData_def)
  then show "if \<exists>level \<in> set (bs @ as). levelThrows bybit level
       then processOrderbookData bybit (BybitOrderbookData (Some d)) = None
       else \<exists>ob. processOrderbookData bybit (BybitOrderbookData (Some d)) = Some ob \<and>
                 keepsEveryLevel bs (bids ob) \<and> keepsEveryLevel as (asks ob)"
    by (rule builder_result [rotated 2]) (simp_all add: toLevel_throws toLevel_fields)
next
  assume h: "deribit_bids r = Some bs \<and> deribit_asks r = Some as"
  have "processOrderbookData deribit (DeribitOrderbookData (Some r)) =
      (case mapLevels toLevelDeribit bs of
         None \<Rightarrow> None
       | Some bids' \<Rightarrow>
           (case mapLevels toLevelDeribit as of
              None \<Rightarrow> None
            | Some asks' \<Rightarrow>
                Some (calculateTotals
                        \<lparr>bids = bids', asks = asks', timestamp = deribit_timestamp r\<rparr>)))"
    using h by (simp add: processDeribitData_def)
  then show "if \<exists>level \<in> set (bs @ as). levelThrows deribit level
       then processOrderbookData deribit (DeribitOrderbookData (Some r)) = None
       else \<exists>ob. processOrderbookData deribit (DeribitOrderbookData (Some r)) = Some ob \<and>
                 keepsEveryLevel bs (bids ob) \<and> keepsEveryLevel as (asks ob)"
    by (rule builder_result [rotated 2]) (simp_all add: toLevelDeribit_throws toLevelDeribit_fields)
qed

text \<open>The instance: the same two lists in a message of each venue. The first bid has the
  price token \<open>n/a\<close>, the second bid has no size. OKX and Bybit build a book with \<open>NaN\<close> in
  these two places; Deribit fails on the missing size.\<close>

theorem builder_fails_or_keeps_every_level_witness:
  "okx_bids \<lparr>okx_bids = Some [Level (TStr ''n/a'') (TStr ''1''), Level (TStr ''99'') TNull],
             okx_asks = Some [Level (TStr ''101'') (TStr ''4'')], okx_ts = TStr ''17''\<rparr> =
     Some [Level (TStr ''n/a'') (TStr ''1''), Level (TStr ''99'') TNull] \<and>
   okx_asks \<lparr>okx_bids = Some [Level (TStr ''n/a'') (TStr ''1''), Level (TStr ''99'') TNull],
             okx_asks = Some [Level (TStr ''101'') (TStr ''4'')], okx_ts = TStr ''17''\<rparr> =
     Some [Level (TStr ''101'') (TStr ''4'')] \<and>
   (\<exists>ob. processOrderbookData okx
            (OKXOrderbookData
               (Some [\<lparr>okx_bids = Some [Level (TStr ''n/a'') (TStr ''1''), Level (TStr ''99'') TNull],
                       okx_asks = Some [Level (TStr ''101'') (TStr ''4'')],
                       okx_ts = TStr ''17''\<rparr>])) =
          Some ob \<and>
        map price (bids ob) = [NaN, Fin 99] \<and> map size_l (bids ob) = [Fin 1, NaN] \<and>
        map price (asks ob) = [Fin 101] \<and> map size_l (asks ob) = [Fin 4]) \<and>
   (\<exists>ob. processOrderbookData bybit
            (BybitOrderbookData
               (Some \<lparr>bybit_b = Some [Level (TStr ''n/a'') (TStr ''1''), Level (TStr ''99'') TNull],
                      bybit_a = Some [Level (TStr ''101'') (TStr ''4'')],
                      bybit_u = TStr ''17''\<rparr>)) =
          Some ob \<and>
        map price (bids ob) = [NaN, Fin 99] \<and> map size_l (bids ob) = [Fin 1, NaN]) \<and>
   levelThrows deribit (Level (TStr ''99'') TNull) \<and>
   processOrderbookData deribit
     (DeribitOrderbookData
        (Some \<lparr>deribit_bids = Some [Level (TStr ''n/a'') (TStr ''1''), Level (TStr ''99'') TNull],
               deribit_asks = Some [Level (TStr ''101'') (TStr ''4'')],
               deribit_timestamp = TNum (Fin 17)\<rparr>)) = None"
proof -
  let ?bs = "[Level (TStr ''n/a'') (TStr ''1''), Level (TStr ''99'') TNull]"
  let ?as = "[Level (TStr ''101'') (TStr ''4'')]"
  let ?e = "\<lparr>okx_bids = Some ?bs, okx_asks = Some ?as, okx_ts = TStr ''17''\<rparr>"
  let ?d = "\<lparr>bybit_b = Some ?bs, bybit_a = Some ?as, bybit_u = TStr ''17''\<rparr>"
  let ?r = "\<lparr>deribit_bids = Some ?bs, deribit_asks = Some ?as,
             deribit_timestamp = TNum (Fin 17)\<rparr>"
  have p: "parseFloat ''n/a'' = NaN" "parseFloat ''99'' = Fin 99" "parseFloat ''1'' = Fin 1"
    "parseFloat ''101'' = Fin 101" "parseFloat ''4'' = Fin 4"
    by (simp_all add: parse_defs)
  from builder_fails_or_keeps_every_level [of ?e ?bs ?as "[]" ?d ?r] p
  show ?thesis by (auto simp add: keepsEveryLevel_def levelThrows_def)
qed

text \<open>
  The claim as the specification states it fails: the level with the price token \<open>abc\<close>
  and the level with the empty size token are both kept, the update does not fail, and
  the book holds \<open>NaN\<close> as a price, as a size and as a total.
\<close>

theorem builder_keeps_NaN_level:
  "processOrderbookData okx
     (OKXOrderbookData
        (Some [\<lparr>okx_bids = Some [Level (TStr ''abc'') (TStr ''1''),
                                  Level (TStr ''99'') (TStr ''2'')],
                okx_asks = Some [Level (TStr ''101'') (TStr [])],
                okx_ts = TStr ''1700000000000''\<rparr>])) =
   Some \<lparr>bids = [\<lparr>price = NaN, size_l = Fin 1, total = Fin 1\<rparr>,
                 \<lparr>price = Fin 99, size_l = Fin 2, total = Fin 3\<rparr>],
         asks = [\<lparr>price = Fin 101, size_l = NaN, total = NaN\<rparr>],
         timestamp = TStr ''1700000000000''\<rparr>"
  by (simp add: processOKXData_def calculateTotals_def Let_def parse_defs)

subsection \<open>Cumulative totals\<close>










section \<open>The depth projector\<close>

lemma mset_insertBy: "mset (insertBy cmp x ys) = add_mset x (mset ys)"
  by (induction ys) simp_all

lemma mset_sortBy: "mset (sortBy cmp xs) = mset xs"
  by (induction xs) (simp_all add: sortBy_def mset_insertBy)

lemma set_insertBy: "set (insertBy cmp x ys) = insert x (set ys)"
  by (metis mset_insertBy set_mset_add_mset_insert set_mset_mset)

text \<open>Inserting a point into an ascending list keeps it ascending, as long as the
  prices are numbers.\<close>

lemma ascending_insertBy:
  assumes "price_d x \<noteq> NaN" and "\<forall>y \<in> set ys. price_d y \<noteq> NaN" and "ascendingByPrice ys"
  shows "ascendingByPrice (insertBy (\<lambda>a b. jsub (price_d a) (price_d b)) x ys)"
  using assms(2,3)
proof (induction ys)
  case Nil
  then show ?case by (simp add: ascendingByPrice_def)
next
  case (Cons y ys)
  let ?cmp = "\<lambda>a b. jsub (price_d a) (price_d b)"
  from Cons.prems have y: "price_d y \<noteq> NaN" and ys: "\<forall>z \<in> set ys. price_d z \<noteq> NaN"
    and yle: "\<forall>z \<in> set ys. jle (price_d y) (price_d z)" and asc: "ascendingByPrice ys"
    by (simp_all add: ascendingByPrice_def)
  show ?case
  proof (cases "jlt (price_d y) (price_d x)")
    case True
    then have "jle (price_d y) (price_d x)" by (rule jlt_imp_jle)
    with yle have "\<forall>z \<in> set (insertBy ?cmp x ys). jle (price_d y) (price_d z)"
      by (simp add: set_insertBy)
    moreover have "ascendingByPrice (insertBy ?cmp x ys)"
      using Cons.IH [OF ys asc] .
    ultimately show ?thesis
      using True assms(1) y by (simp add: jsub_gt_zero ascendingByPrice_def)
  next
    case False
    then have xy: "jle (price_d x) (price_d y)"
      using assms(1) y by (simp add: not_jlt_imp_jle)
    with yle have "\<forall>z \<in> set ys. jle (price_d x) (price_d z)"
      using jle_trans by blast
    then show ?thesis
      using False assms(1) y xy yle asc by (simp add: jsub_gt_zero ascendingByPrice_def)
  qed
qed

lemma ascending_sortBy:
  assumes "\<forall>x \<in> set xs. price_d x \<noteq> NaN"
  shows "ascendingByPrice (sortBy (\<lambda>a b. jsub (price_d a) (price_d b)) xs)"
  using assms
proof (induction xs)
  case Nil
  then show ?case by (simp add: sortBy_def ascendingByPrice_def)
next
  case (Cons x xs)
  let ?cmp = "\<lambda>a b. jsub (price_d a) (price_d b)"
  have "\<forall>y \<in> set (sortBy ?cmp xs). price_d y \<noteq> NaN"
    using Cons.prems by (metis list.set_intros(2) mset_sortBy set_mset_mset)
  with Cons show ?case
    using ascending_insertBy [of x "sortBy ?cmp xs"] by (simp add: sortBy_def)
qed

text \<open>
  Claim C9. For every book whose prices are numbers (none is \<open>NaN\<close>), the projection has
  one point per level of either side; the points are those of \<open>bidPoint\<close> on the bids,
  each with the total of its bid and zero on the ask side, and those of \<open>askPoint\<close> on
  the asks, each with the total of its ask and zero on the bid side; they are in
  ascending order of price. Points of equal price from opposite sides are not merged.
  The bids \<open>[(100, 5)]\<close> and the asks \<open>[(101, 3)]\<close> give the two points
  \<open>(100, bid = 5, ask = 0)\<close> and \<open>(101, bid = 0, ask = 3)\<close>, in that order.
\<close>

theorem generateDepthChartData_points:
  assumes "pricesNotNaN ob"
  shows "length (generateDepthChartData (Some ob)) = length (bids ob) + length (asks ob) \<and>
         mset (generateDepthChartData (Some ob)) =
           mset (map bidPoint (bids ob)) + mset (map askPoint (asks ob)) \<and>
         ascendingByPrice (generateDepthChartData (Some ob)) \<and>
         generateDepthChartData (Some (mkBook [mkLevel 100 5 5] [mkLevel 101 3 3])) =
           [\<lparr>price_d = Fin 100, bidTotal = Fin 5, askTotal = Fin 0\<rparr>,
            \<lparr>price_d = Fin 101, bidTotal = Fin 0, askTotal = Fin 3\<rparr>] \<and>
         generateDepthChartData (Some (mkBook [mkLevel 100 5 5] [mkLevel 100 3 3])) =
           [\<lparr>price_d = Fin 100, bidTotal = Fin 5, askTotal = Fin 0\<rparr>,
            \<lparr>price_d = Fin 100, bidTotal = Fin 0, askTotal = Fin 3\<rparr>]"
proof -
  let ?cmp = "\<lambda>a b. jsub (price_d a) (price_d b)"
  let ?pts = "rev (map bidPoint (bids ob)) @ map askPoint (asks ob)"
  have gen: "generateDepthChartData (Some ob) = sortBy ?cmp ?pts"
    by (simp add: generateDepthChartData_def Let_def)
  have ms: "mset (generateDepthChartData (Some ob)) =
      mset (map bidPoint (bids ob)) + mset (map askPoint (asks ob))"
    by (simp add: gen mset_sortBy)
  have "size (mset (generateDepthChartData (Some ob))) = length (bids ob) + length (asks ob)"
    by (simp only: ms size_union size_mset length_map)
  then have len: "length (generateDepthChartData (Some ob)) = length (bids ob) + length (asks ob)"
    by simp
  have "\<forall>x \<in> set ?pts. price_d x \<noteq> NaN"
    using assms by (auto simp: pricesNotNaN_def bidPoint_def askPoint_def)
  then have asc: "ascendingByPrice (generateDepthChartData (Some ob))"
    unfolding gen by (rule ascending_sortBy)
  have ex1: "generateDepthChartData (Some (mkBook [mkLevel 100 5 5] [mkLevel 101 3 3])) =
           [\<lparr>price_d = Fin 100, bidTotal = Fin 5, askTotal = Fin 0\<rparr>,
            \<lparr>price_d = Fin 101, bidTotal = Fin 0, askTotal = Fin 3\<rparr>]"
    by (simp add: generateDepthChartData_def sortBy_def bidPoint_def askPoint_def jsub_def
        example_defs)
  have ex2: "generateDepthChartData (Some (mkBook [mkLevel 100 5 5] [mkLevel 100 3 3])) =
           [\<lparr>price_d = Fin 100, bidTotal = Fin 5, askTotal = Fin 0\<rparr>,
            \<lparr>price_d = Fin 100, bidTotal = Fin 0, askTotal = Fin 3\<rparr>]"
    by (simp add: generateDepthChartData_def sortBy_def bidPoint_def askPoint_def jsub_def
        example_defs)
  from len ms asc ex1 ex2 show ?thesis by blast
qed

text \<open>The instance: the bids \<open>[(100, 5), (99, 2)]\<close> with the totals 5 and 7, the asks
  \<open>[(101, 3), (102, 4)]\<close> with the totals 3 and 7.\<close>

theorem generateDepthChartData_points_witness:
  "pricesNotNaN (mkBook [mkLevel 100 5 5, mkLevel 99 2 7] [mkLevel 101 3 3, mkLevel 102 4 7]) \<and>
   generateDepthChartData
     (Some (mkBook [mkLevel 100 5 5, mkLevel 99 2 7] [mkLevel 101 3 3, mkLevel 102 4 7])) =
     [\<lparr>price_d = Fin 99, bidTotal = Fin 7, askTotal = Fin 0\<rparr>,
      \<lparr>price_d = Fin 100, bidTotal = Fin 5, askTotal = Fin 0\<rparr>,
      \<lparr>price_d = Fin 101, bidTotal = Fin 0, askTotal = Fin 3\<rparr>,
      \<lparr>price_d = Fin 102, bidTotal = Fin 0, askTotal = Fin 7\<rparr>] \<and>
   length (generateDepthChartData
     (Some (mkBook [mkLevel 100 5 5, mkLevel 99 2 7] [mkLevel 101 3 3, mkLevel 102 4 7]))) = 4 \<and>
   ascendingByPrice (generateDepthChartData
     (Some (mkBook [mkLevel 100 5 5, mkLevel 99 2 7] [mkLevel 101 3 3, mkLevel 102 4 7])))"
proof -
  let ?ob = "mkBook [mkLevel 100 5 5, mkLevel 99 2 7] [mkLevel 101 3 3, mkLevel 102 4 7]"
  have h: "pricesNotNaN ?ob"
    by (simp add: pricesNotNaN_def example_defs)
  have g: "generateDepthChartData (Some ?ob) =
     [\<lparr>price_d = Fin 99, bidTotal = Fin 7, askTotal = Fin 0\<rparr>,
      \<lparr>price_d = Fin 100, bidTotal = Fin 5, askTotal = Fin 0\<rparr>,
      \<lparr>price_d = Fin 101, bidTotal = Fin 0, askTotal = Fin 3\<rparr>,
      \<lparr>price_d = Fin 102, bidTotal = Fin 0, askTotal = Fin 7\<rparr>]"
    by (simp add: generateDepthChartData_def sortBy_def bidPoint_def askPoint_def jsub_def
        example_defs)
  have l: "length (bids ?ob) + length (asks ?ob) = 4"
    by (simp add: mkBook_def)
  from generateDepthChartData_points [OF h] h g l
  show ?thesis by (simp only: simp_thms)
qed

end
